theory Spec2Isabelle
  imports Main "HOL-Library.AList" "HOL-Library.Sublist"
begin
section \<open>Strings\<close>

text \<open>
  Python strings are modelled as \<open>string\<close> (lists of 8-bit characters). All the
  characters the script treats specially (delimiters of a URL, the characters removed
  from a file name, white space, digits) are ASCII, and the model follows Python on
  ASCII text. Characters beyond ASCII are carried along unchanged (as the bytes of their
  UTF-8 encoding); Python's Unicode white space, Unicode digits and Unicode case mapping
  beyond ASCII are outside the model.
\<close>

definition ord :: "char \<Rightarrow> nat" where
  "ord c = of_char c"

definition is_space :: "char \<Rightarrow> bool" where
  \<comment> \<open>\<open>str.isspace\<close> on ASCII: TAB, LF, VT, FF, CR, FS, GS, RS, US and the blank\<close>
  "is_space c = ((9 \<le> ord c \<and> ord c \<le> 13) \<or> (28 \<le> ord c \<and> ord c \<le> 32))"

definition strip :: "string \<Rightarrow> string" where
  \<comment> \<open>\<open>s.strip()\<close>\<close>
  "strip s = rev (dropWhile is_space (rev (dropWhile is_space s)))"

definition is_upper :: "char \<Rightarrow> bool" where
  "is_upper c = (65 \<le> ord c \<and> ord c \<le> 90)"

definition is_lower :: "char \<Rightarrow> bool" where
  "is_lower c = (97 \<le> ord c \<and> ord c \<le> 122)"

definition is_digit :: "char \<Rightarrow> bool" where
  "is_digit c = (48 \<le> ord c \<and> ord c \<le> 57)"

definition lower_char :: "char \<Rightarrow> char" where
  "lower_char c = (if is_upper c then char_of (ord c + 32) else c)"

definition lower :: "string \<Rightarrow> string" where
  \<comment> \<open>\<open>s.lower()\<close>\<close>
  "lower s = map lower_char s"

fun startswith :: "string \<Rightarrow> string \<Rightarrow> bool" where
  "startswith s [] = True"
| "startswith [] (p # ps) = False"
| "startswith (c # cs) (p # ps) = (c = p \<and> startswith cs ps)"

fun py_in :: "string \<Rightarrow> string \<Rightarrow> bool" where
  \<comment> \<open>\<open>sub in s\<close> for strings: \<open>sub\<close> occurs in \<open>s\<close> as a contiguous substring\<close>
  "py_in sub [] = (sub = [])"
| "py_in sub (c # cs) = (startswith (c # cs) sub \<or> py_in sub cs)"

section \<open>File names\<close>

definition bad_filename_chars :: "char set" where
  \<comment> \<open>the character class of line 85: backslash, slash, star, question mark, colon,
      double quote, less, greater, bar\<close>
  "bad_filename_chars =
     {CHR 0x5C, CHR ''/'', CHR ''*'', CHR ''?'', CHR '':'', CHR 0x22, CHR ''<'', CHR ''>'', CHR ''|''}"

definition clean_filename :: "string \<Rightarrow> string" where
  \<comment> \<open>line 85: \<open>re.sub(r'[\\/*?:"<>|]', "_", filename)\<close>: every match of the
      one-character class is replaced by an underscore\<close>
  "clean_filename filename = map (\<lambda>c. if c \<in> bad_filename_chars then CHR ''_'' else c) filename"

section \<open>Exceptions and the environment\<close>

text \<open>
  Exceptions that leave a function are values: \<open>Inl\<close> of the exception. The script
  catches \<open>requests.exceptions.RequestException\<close> (lines 94 and 101) and
  \<open>ValueError\<close> (line 132); what it does not catch ends the run.
\<close>

datatype exn = ValueError | IndexError | OSError

datatype http_result =
    RequestException
  | Response nat string

text \<open>
  A parsed page, as far as the script looks at it: the \<open>div\<close> elements of class
  \<open>fileName\<close> and of class \<open>pdfString\<close> in document order, each with its text.
\<close>

datatype marker = FileName string | PdfString string

text \<open>
  The environment answers what the script asks of the outside world and of library code
  that is not modelled in detail: the outcome of \<open>requests.get\<close> for an address
  (\<open>RequestException\<close>, or a response with its status code and body; the same address
  gets the same answer throughout a run), the elements \<open>BeautifulSoup\<close> finds in a
  body, whether \<open>os.makedirs\<close> and \<open>open(path, 'wb')\<close> succeed, and the two checks
  of \<open>urllib.parse.urlsplit\<close> on a host that the model does not compute
  (\<open>_check_bracketed_netloc\<close> for a host in brackets, \<open>_checknetloc\<close> for a host
  beyond ASCII).
\<close>

record env =
  requests_get :: "string \<Rightarrow> http_result"
  html_markers :: "string \<Rightarrow> marker list"
  makedirs_ok :: "string \<Rightarrow> bool"
  open_ok :: "string \<Rightarrow> bool"
  bracketed_netloc_ok :: "string \<Rightarrow> bool"
  nfkc_netloc_ok :: "string \<Rightarrow> bool"

section \<open>urllib.parse\<close>

text \<open>
  The functions of \<open>urllib.parse\<close> that \<open>decrement_item_in_url\<close> calls, after
  CPython 3.12 (\<open>Lib/urllib/parse.py\<close>), with their default arguments.
\<close>

definition uses_netloc :: "string list" where
  "uses_netloc = ['''', ''ftp'', ''http'', ''gopher'', ''nntp'', ''telnet'',
     ''imap'', ''wais'', ''file'', ''mms'', ''https'', ''shttp'',
     ''snews'', ''prospero'', ''rtsp'', ''rtsps'', ''rtspu'', ''rsync'',
     ''svn'', ''svn+ssh'', ''sftp'', ''nfs'', ''git'', ''git+ssh'',
     ''ws'', ''wss'', ''itms-services'']"

definition uses_params :: "string list" where
  "uses_params = ['''', ''ftp'', ''hdl'', ''prospero'', ''http'', ''imap'',
     ''https'', ''shttp'', ''rtsp'', ''rtsps'', ''rtspu'', ''sip'',
     ''sips'', ''mms'', ''sftp'', ''tel'']"

definition is_scheme_char :: "char \<Rightarrow> bool" where
  "is_scheme_char c =
     (is_lower c \<or> is_upper c \<or> is_digit c \<or> c = CHR ''+'' \<or> c = CHR ''-'' \<or> c = CHR ''.'')"

definition is_c0_control_or_space :: "char \<Rightarrow> bool" where
  "is_c0_control_or_space c = (ord c \<le> 32)"

definition is_unsafe_url_byte :: "char \<Rightarrow> bool" where
  "is_unsafe_url_byte c = (c = CHR 0x09 \<or> c = CHR 0x0D \<or> c = CHR 0x0A)"

definition is_netloc_delim :: "char \<Rightarrow> bool" where
  "is_netloc_delim c = (c = CHR ''/'' \<or> c = CHR ''?'' \<or> c = CHR ''#'')"

definition is_ascii :: "string \<Rightarrow> bool" where
  "is_ascii s = list_all (\<lambda>c. ord c < 128) s"

definition split1 :: "char \<Rightarrow> string \<Rightarrow> string \<times> string" where
  \<comment> \<open>\<open>if c in s: a, b = s.split(c, 1)\<close>, and \<open>(s, '')\<close> otherwise\<close>
  "split1 c s =
     (if c \<in> set s then (takeWhile (\<lambda>x. x \<noteq> c) s, tl (dropWhile (\<lambda>x. x \<noteq> c) s)) else (s, []))"

definition split_scheme :: "string \<Rightarrow> string \<times> string" where
  \<comment> \<open>\<open>i = url.find(':')\<close>; a scheme is split off when \<open>i > 0\<close>, the first character is
      an ASCII letter and all of \<open>url[:i]\<close> are scheme characters\<close>
  "split_scheme url =
     (let pre = takeWhile (\<lambda>x. x \<noteq> CHR '':'') url in
      if CHR '':'' \<in> set url \<and> pre \<noteq> []
         \<and> (case url of [] \<Rightarrow> False | c # _ \<Rightarrow> is_lower c \<or> is_upper c)
         \<and> list_all is_scheme_char pre
      then (lower pre, drop (length pre + 1) url)
      else ([], url))"

definition splitnetloc :: "string \<Rightarrow> string \<times> string" where
  \<comment> \<open>\<open>_splitnetloc(url, 2)\<close>: the host runs to the first of \<open>/ ? #\<close>\<close>
  "splitnetloc url =
     (let r = drop 2 url in
      (takeWhile (\<lambda>c. \<not> is_netloc_delim c) r, dropWhile (\<lambda>c. \<not> is_netloc_delim c) r))"

definition netloc_invalid :: "env \<Rightarrow> string \<Rightarrow> bool" where
  \<comment> \<open>the cases in which \<open>urlsplit\<close> raises \<open>ValueError\<close>\<close>
  "netloc_invalid env nl =
     ((CHR ''['' \<in> set nl \<and> CHR '']'' \<notin> set nl)
      \<or> (CHR '']'' \<in> set nl \<and> CHR ''['' \<notin> set nl)
      \<or> (CHR ''['' \<in> set nl \<and> CHR '']'' \<in> set nl \<and> \<not> bracketed_netloc_ok env nl)
      \<or> (nl \<noteq> [] \<and> \<not> is_ascii nl \<and> \<not> nfkc_netloc_ok env nl))"

definition urlsplit :: "env \<Rightarrow> string \<Rightarrow> exn + (string \<times> string \<times> string \<times> string \<times> string)" where
  "urlsplit env url =
     (let url1 = filter (\<lambda>c. \<not> is_unsafe_url_byte c) (dropWhile is_c0_control_or_space url);
          (sch, url2) = split_scheme url1;
          (nl, url3) = (if take 2 url2 = ''//'' then splitnetloc url2 else ([], url2));
          (url4, frag) = split1 (CHR ''#'') url3;
          (url5, qry) = split1 (CHR ''?'') url4
      in if netloc_invalid env nl then Inl ValueError
         else Inr (sch, nl, url5, qry, frag))"

definition splitparams :: "string \<Rightarrow> string \<times> string" where
  \<comment> \<open>\<open>_splitparams\<close>: at the first semicolon after the last slash\<close>
  "splitparams url =
     (if CHR ''/'' \<in> set url then
        (let seg = rev (takeWhile (\<lambda>x. x \<noteq> CHR ''/'') (rev url));
             front = take (length url - length seg) url
         in if CHR '';'' \<in> set seg
            then (front @ takeWhile (\<lambda>x. x \<noteq> CHR '';'') seg, tl (dropWhile (\<lambda>x. x \<noteq> CHR '';'') seg))
            else (url, []))
      else (takeWhile (\<lambda>x. x \<noteq> CHR '';'') url, tl (dropWhile (\<lambda>x. x \<noteq> CHR '';'') url)))"

record ParseResult =
  scheme :: string
  netloc :: string
  path :: string
  params :: string
  query :: string
  fragment :: string

definition urlparse :: "env \<Rightarrow> string \<Rightarrow> exn + ParseResult" where
  "urlparse env url =
     (case urlsplit env url of
        Inl e \<Rightarrow> Inl e
      | Inr (sch, nl, url1, qry, frag) \<Rightarrow>
          (let (url2, prm) =
                 (if sch \<in> set uses_params \<and> CHR '';'' \<in> set url1 then splitparams url1
                  else (url1, []))
           in Inr \<lparr>scheme = sch, netloc = nl, path = url2, params = prm,
                    query = qry, fragment = frag\<rparr>))"

definition urlunsplit :: "string \<times> string \<times> string \<times> string \<times> string \<Rightarrow> string" where
  "urlunsplit components =
     (case components of (sch, nl, url, qry, frag) \<Rightarrow>
        (let url1 = (if nl \<noteq> [] \<or> (sch \<noteq> [] \<and> sch \<in> set uses_netloc \<and> take 2 url \<noteq> ''//'')
                     then ''//'' @ nl @ (if url \<noteq> [] \<and> take 1 url \<noteq> ''/'' then ''/'' @ url else url)
                     else url);
             url2 = (if sch \<noteq> [] then sch @ '':'' @ url1 else url1);
             url3 = (if qry \<noteq> [] then url2 @ ''?'' @ qry else url2)
         in if frag \<noteq> [] then url3 @ ''#'' @ frag else url3))"

definition urlunparse :: "ParseResult \<Rightarrow> string" where
  "urlunparse p =
     (let url = (if params p \<noteq> [] then path p @ '';'' @ params p else path p)
      in urlunsplit (scheme p, netloc p, url, query p, fragment p))"

subsection \<open>Percent-encoding\<close>

definition is_hexdig :: "char \<Rightarrow> bool" where
  \<comment> \<open>\<open>_hexdig = '0123456789ABCDEFabcdef'\<close>\<close>
  "is_hexdig c = (is_digit c \<or> (65 \<le> ord c \<and> ord c \<le> 70) \<or> (97 \<le> ord c \<and> ord c \<le> 102))"

definition hex_value :: "char \<Rightarrow> nat" where
  "hex_value c = (if is_digit c then ord c - 48 else if ord c \<le> 70 then ord c - 55 else ord c - 87)"

fun unquote :: "string \<Rightarrow> string" where
  \<comment> \<open>\<open>%XX\<close> with two hexadecimal digits becomes the byte; any other percent sign stays\<close>
  "unquote (c # a # b # rest) =
     (if c = CHR ''%'' \<and> is_hexdig a \<and> is_hexdig b
      then char_of (16 * hex_value a + hex_value b) # unquote rest
      else c # unquote (a # b # rest))"
| "unquote s = s"

definition unquote_plus :: "string \<Rightarrow> string" where
  "unquote_plus s = unquote (map (\<lambda>c. if c = CHR ''+'' then CHR '' '' else c) s)"

definition always_safe :: "char \<Rightarrow> bool" where
  \<comment> \<open>\<open>_ALWAYS_SAFE\<close>: letters, digits and \<open>_ . - ~\<close>\<close>
  "always_safe c =
     (is_upper c \<or> is_lower c \<or> is_digit c
      \<or> c = CHR ''_'' \<or> c = CHR ''.'' \<or> c = CHR ''-'' \<or> c = CHR ''~'')"

definition hex_digit :: "nat \<Rightarrow> char" where
  "hex_digit n = (if n < 10 then char_of (48 + n) else char_of (55 + n))"

definition quoter :: "string \<Rightarrow> char \<Rightarrow> string" where
  \<comment> \<open>\<open>_Quoter.__missing__\<close>: \<open>chr(b) if b in self.safe else '%{:02X}'.format(b)\<close>\<close>
  "quoter safe c =
     (if always_safe c \<or> c \<in> set safe then [c]
      else [CHR ''%'', hex_digit (ord c div 16), hex_digit (ord c mod 16)])"

definition quote :: "string \<Rightarrow> string \<Rightarrow> string" where
  "quote s safe = concat (map (quoter safe) s)"

definition quote_plus :: "string \<Rightarrow> string" where
  "quote_plus s =
     (if CHR '' '' \<notin> set s then quote s []
      else map (\<lambda>c. if c = CHR '' '' then CHR ''+'' else c) (quote s '' ''))"

subsection \<open>Query strings\<close>

fun split_on :: "char \<Rightarrow> string \<Rightarrow> string list" where
  \<comment> \<open>\<open>s.split(sep)\<close> for a one-character separator\<close>
  "split_on sep [] = [[]]"
| "split_on sep (c # cs) =
     (if c = sep then [] # split_on sep cs
      else (case split_on sep cs of [] \<Rightarrow> [[c]] | p # ps \<Rightarrow> (c # p) # ps))"

fun join :: "string \<Rightarrow> string list \<Rightarrow> string" where
  \<comment> \<open>\<open>sep.join(l)\<close>\<close>
  "join sep [] = []"
| "join sep [x] = x"
| "join sep (x # y # ys) = x @ sep @ join sep (y # ys)"

definition parse_field :: "string \<Rightarrow> (string \<times> string) list" where
  \<comment> \<open>the body of the loop of \<open>parse_qsl\<close>: \<open>name, has_eq, value = name_value.partition('=')\<close>;
      a field with an empty value is left out (\<open>keep_blank_values\<close> is false)\<close>
  "parse_field name_value =
     (if name_value \<noteq> [] then
        (let name = takeWhile (\<lambda>x. x \<noteq> CHR ''='') name_value;
             val = drop (length name + 1) name_value
         in if val \<noteq> [] then [(unquote_plus name, unquote_plus val)] else [])
      else [])"

definition parse_qsl :: "string \<Rightarrow> (string \<times> string) list" where
  "parse_qsl qs = (if qs = [] then [] else concat (map parse_field (split_on (CHR ''&'') qs)))"

text \<open>
  A Python \<open>dict\<close> keeps its keys in the order of their first insertion; it is modelled
  as an association list with distinct keys. \<open>AList.update\<close> is the assignment
  \<open>d[k] = v\<close>: it replaces the value where the key stands and appends a new key.
\<close>

definition parse_qs_add :: "string \<times> string \<Rightarrow> (string \<times> string list) list \<Rightarrow> (string \<times> string list) list" where
  \<comment> \<open>\<open>if name in parsed_result: parsed_result[name].append(value) else: parsed_result[name] = [value]\<close>\<close>
  "parse_qs_add nv d =
     (case map_of d (fst nv) of
        Some vs \<Rightarrow> AList.update (fst nv) (vs @ [snd nv]) d
      | None \<Rightarrow> AList.update (fst nv) [snd nv] d)"

definition parse_qs :: "string \<Rightarrow> (string \<times> string list) list" where
  "parse_qs qs = fold parse_qs_add (parse_qsl qs) []"

definition urlencode :: "(string \<times> string list) list \<Rightarrow> string" where
  \<comment> \<open>\<open>urlencode(query, doseq=True)\<close> for a dict whose values are lists of strings\<close>
  "urlencode d =
     join ''&'' (concat (map (\<lambda>(k, vs). map (\<lambda>elt. quote_plus k @ ''='' @ quote_plus elt) vs) d))"

subsection \<open>Integers and their decimal text\<close>

fun int_digits :: "bool \<Rightarrow> nat \<Rightarrow> string \<Rightarrow> nat option" where
  \<comment> \<open>decimal digits, single underscores between digits allowed; the flag says that a
      digit has to come next\<close>
  "int_digits need acc [] = (if need then None else Some acc)"
| "int_digits need acc (c # cs) =
     (if is_digit c then int_digits False (10 * acc + (ord c - 48)) cs
      else if c = CHR ''_'' \<and> \<not> need then int_digits True acc cs
      else None)"

definition py_int :: "string \<Rightarrow> int option" where
  \<comment> \<open>\<open>int(s)\<close>: \<open>None\<close> stands for \<open>ValueError\<close>. White space around the number is
      dropped, then comes an optional sign and the digits. (The limit of 4300 digits of
      CPython 3.11 and later is not modelled.)\<close>
  "py_int s =
     (case strip s of
        [] \<Rightarrow> None
      | c # cs \<Rightarrow>
          if c = CHR ''-'' then map_option (\<lambda>n. - int n) (int_digits True 0 cs)
          else if c = CHR ''+'' then map_option int (int_digits True 0 cs)
          else map_option int (int_digits True 0 (c # cs)))"

fun str_nat :: "nat \<Rightarrow> string" where
  "str_nat n = (if n < 10 then [char_of (48 + n)] else str_nat (n div 10) @ [char_of (48 + n mod 10)])"

declare str_nat.simps [simp del]

definition py_str :: "int \<Rightarrow> string" where
  \<comment> \<open>\<open>str(i)\<close> for an integer\<close>
  "py_str i = (if i < 0 then CHR ''-'' # str_nat (nat (- i)) else str_nat (nat i))"

section \<open>What a run does\<close>

text \<open>
  The effects of the script are recorded as events, in the order in which they happen:
  log records (with their level; the handler of line 17 prints those of level \<open>INFO\<close> and
  above), requests, directories created, files written, and pauses of \<open>time.sleep\<close>.
  The text of an exception inside a log line is left out.
\<close>

datatype level = DEBUG | INFO | ERROR

datatype message =
    AccessingURL string
  | NoFilesFound string
  | Downloading string
  | SuccessfullyDownloaded string
  | ErrorDownloading string
  | SkippingFile string string
  | ErrorAccessingURL string
  | ErrorParsingItem string
  | NoItemParameter string
  | ProcessingPage nat "int option"
  | ReachedMaximum int
  | NoMorePages
  | DownloadComplete nat nat

datatype event =
    Log level message
  | HttpGet string
  | MakeDirs string
  | WriteFile string string
  | Sleep int

section \<open>Address decrement\<close>

definition decrement_item_in_url :: "env \<Rightarrow> string \<Rightarrow> exn + (string option \<times> event list)" where
  \<comment> \<open>lines 105 to 137; the result is the returned value with the log records written\<close>
  "decrement_item_in_url env url =
     (case urlparse env url of
        Inl e \<Rightarrow> Inl e
      | Inr parsed_url \<Rightarrow>
          (let query_params = parse_qs (query parsed_url) in
           case map_of query_params ''item'' of
             Some vs \<Rightarrow>
               (case vs of
                  [] \<Rightarrow> Inl IndexError
                | v # _ \<Rightarrow>
                    (case py_int v of
                       Some item_value \<Rightarrow>
                         if item_value \<le> 1 then Inr (None, [])
                         else
                           (let query_params' =
                                  AList.update ''item'' [py_str (item_value - 1)] query_params;
                                new_query = urlencode query_params'
                            in Inr (Some (urlunparse (parsed_url\<lparr>query := new_query\<rparr>)), []))
                     | None \<Rightarrow> Inr (None, [Log ERROR (ErrorParsingItem url)])))
           | None \<Rightarrow> Inr (None, [Log ERROR (NoItemParameter url)])))"

section \<open>The state of a run\<close>

text \<open>
  What a run changes: which paths exist (\<open>os.path.exists\<close>), the content of the
  files written, and the events so far. An exception that ends a function comes with the
  state at that moment: what was written before stays written.
\<close>

record world =
  exists_path :: "string \<Rightarrow> bool"
  files :: "string \<Rightarrow> string option"
  trace :: "event list"

definition emit :: "event list \<Rightarrow> world \<Rightarrow> world" where
  "emit es w = w\<lparr>trace := trace w @ es\<rparr>"

definition fetch :: "env \<Rightarrow> string \<Rightarrow> string option" where
  \<comment> \<open>\<open>requests.get(url)\<close> followed by \<open>raise_for_status()\<close>: the body of the response,
      or \<open>None\<close> when one of the two raises a \<open>RequestException\<close> (no response, or a status
      from 400 to 599)\<close>
  "fetch env url =
     (case requests_get env url of
        RequestException \<Rightarrow> None
      | Response status body \<Rightarrow> if 400 \<le> status \<and> status < 600 then None else Some body)"

definition path_join :: "string \<Rightarrow> string \<Rightarrow> string" where
  \<comment> \<open>\<open>os.path.join(a, b)\<close> of \<open>posixpath\<close>\<close>
  "path_join a b =
     (if startswith b ''/'' then b
      else if a = [] \<or> last a = CHR ''/'' then a @ b
      else a @ ''/'' @ b)"

definition pdf_url_of :: "string \<Rightarrow> string" where
  \<comment> \<open>line 75\<close>
  "pdf_url_of document_id =
     ''https://www.cityoftulsa.org/apps/COTDisplayDocument?DocumentType=CouncilDocument&DocumentIdentifiers=''
       @ document_id"

section \<open>Page extractor\<close>

fun find_all_fileName :: "marker list \<Rightarrow> (string \<times> marker list) list" where
  \<comment> \<open>\<open>soup.find_all('div', class_='fileName')\<close>: every such element, with its text and
      the part of the document that follows it\<close>
  "find_all_fileName [] = []"
| "find_all_fileName (FileName t # ms) = (t, ms) # find_all_fileName ms"
| "find_all_fileName (PdfString t # ms) = find_all_fileName ms"

fun find_next_pdfString :: "marker list \<Rightarrow> string option" where
  \<comment> \<open>\<open>file_element.find_next('div', class_='pdfString')\<close> on the document after the
      element: the text of the first such element, if there is one\<close>
  "find_next_pdfString [] = None"
| "find_next_pdfString (PdfString t # ms) = Some t"
| "find_next_pdfString (FileName t # ms) = find_next_pdfString ms"

definition should_download :: "string option \<Rightarrow> string \<Rightarrow> bool" where
  \<comment> \<open>lines 64 to 66; \<open>if filter_word\<close> is false for \<open>None\<close> and for the empty string\<close>
  "should_download filter_word filename =
     (case filter_word of
        None \<Rightarrow> True
      | Some fw \<Rightarrow> if fw \<noteq> [] then py_in (lower fw) (lower filename) else True)"

fun download_files ::
  "env \<Rightarrow> string \<Rightarrow> string option \<Rightarrow> (string \<times> marker list) list \<Rightarrow> nat \<Rightarrow> world
     \<Rightarrow> (exn \<times> world) + (nat \<times> world)" where
  \<comment> \<open>the loop of lines 59 to 97 over \<open>file_elements\<close>, with \<open>download_count\<close>\<close>
  "download_files env output_dir filter_word [] download_count w = Inr (download_count, w)"
| "download_files env output_dir filter_word (file_element # rest) download_count w =
     (let filename = strip (fst file_element) in
      if should_download filter_word filename then
        (case find_next_pdfString (snd file_element) of
           Some pdf_string \<Rightarrow>
             (let document_id = strip pdf_string;
                  pdf_url = pdf_url_of document_id;
                  w1 = emit [Log INFO (Downloading filename), HttpGet pdf_url] w
              in case fetch env pdf_url of
                   Some content \<Rightarrow>
                     (let output_path = path_join output_dir (clean_filename filename) in
                      if open_ok env output_path then
                        download_files env output_dir filter_word rest (download_count + 1)
                          (emit [WriteFile output_path content,
                                 Log INFO (SuccessfullyDownloaded output_path)]
                             (w1\<lparr>exists_path := (exists_path w1)(output_path := True),
                                  files := (files w1)(output_path \<mapsto> content)\<rparr>))
                      else Inl (OSError, w1))
                 | None \<Rightarrow>
                     download_files env output_dir filter_word rest download_count
                       (emit [Log ERROR (ErrorDownloading filename)] w1))
         | None \<Rightarrow> download_files env output_dir filter_word rest download_count w)
      else
        download_files env output_dir filter_word rest download_count
          (emit [Log DEBUG (SkippingFile (case filter_word of Some fw \<Rightarrow> fw | None \<Rightarrow> []) filename)] w))"

definition extract_pdfs ::
  "env \<Rightarrow> string \<Rightarrow> string \<Rightarrow> string option \<Rightarrow> world \<Rightarrow> (exn \<times> world) + (nat \<times> world)" where
  \<comment> \<open>lines 25 to 103\<close>
  "extract_pdfs env url output_dir filter_word w =
     (if \<not> exists_path w output_dir \<and> \<not> makedirs_ok env output_dir then Inl (OSError, w)
      else
        (let w0 = (if \<not> exists_path w output_dir
                   then emit [MakeDirs output_dir] (w\<lparr>exists_path := (exists_path w)(output_dir := True)\<rparr>)
                   else w);
             w1 = emit [Log INFO (AccessingURL url), HttpGet url] w0
         in case fetch env url of
              Some body \<Rightarrow>
                (let file_elements = find_all_fileName (html_markers env body) in
                 if file_elements = [] then Inr (0, emit [Log INFO (NoFilesFound url)] w1)
                 else download_files env output_dir filter_word file_elements 0 w1)
            | None \<Rightarrow> Inr (0, emit [Log ERROR (ErrorAccessingURL url)] w1)))"

section \<open>Traversal driver\<close>

definition truthy :: "string option \<Rightarrow> bool" where
  \<comment> \<open>the truth value of \<open>current_url\<close>: false for \<open>None\<close> and for the empty string\<close>
  "truthy u = (case u of None \<Rightarrow> False | Some s \<Rightarrow> s \<noteq> [])"


definition below_ceiling :: "int option \<Rightarrow> nat \<Rightarrow> bool" where
  \<comment> \<open>\<open>max_pages is None or page_count < max_pages\<close>\<close>
  "below_ceiling max_pages page_count =
     (case max_pages of None \<Rightarrow> True | Some m \<Rightarrow> int page_count < m)"




datatype returned = PyNone | PyPair nat nat


section \<open>Notions used in the statements and proofs\<close>

fun requested :: "event list \<Rightarrow> string list" where
  "requested [] = []"
| "requested (HttpGet u # es) = u # requested es"
| "requested (e # es) = requested es"

fun written :: "event list \<Rightarrow> (string \<times> string) list" where
  "written [] = []"
| "written (WriteFile p c # es) = (p, c) # written es"
| "written (e # es) = written es"

fun slept :: "event list \<Rightarrow> int list" where
  "slept [] = []"
| "slept (Sleep d # es) = d # slept es"
| "slept (e # es) = slept es"

fun pages :: "event list \<Rightarrow> nat list" where
  "pages [] = []"
| "pages (Log l (ProcessingPage n m) # es) = n # pages es"
| "pages (e # es) = pages es"

definition refs_of :: "(string \<times> marker list) list \<Rightarrow> (string \<times> string) list" where
  "refs_of file_elements =
     concat (map (\<lambda>fe. case find_next_pdfString (snd fe) of
                          Some i \<Rightarrow> [(strip (fst fe), strip i)] | None \<Rightarrow> [])
       file_elements)"

definition references :: "marker list \<Rightarrow> (string \<times> string) list" where
  "references ms = refs_of (find_all_fileName ms)"

definition label_matches :: "string option \<Rightarrow> string \<Rightarrow> bool" where
  "label_matches filter_word label =
     (case filter_word of None \<Rightarrow> True | Some word \<Rightarrow> sublist (lower word) (lower label))"

definition selected :: "string option \<Rightarrow> (string \<times> string) list \<Rightarrow> (string \<times> string) list" where
  "selected filter_word refs = filter (\<lambda>r. label_matches filter_word (fst r)) refs"

definition saved :: "env \<Rightarrow> string \<Rightarrow> (string \<times> string) list \<Rightarrow> (string \<times> string) list" where
  "saved env output_dir refs =
     concat (map (\<lambda>r. case fetch env (pdf_url_of (snd r)) of
                         Some content \<Rightarrow> [(path_join output_dir (clean_filename (fst r)), content)]
                       | None \<Rightarrow> [])
       refs)"




definition digit_value :: "char \<Rightarrow> nat" where
  "digit_value c = ord c - 48"

definition is_query_char :: "char \<Rightarrow> bool" where
  "is_query_char c = (always_safe c \<or> c = CHR ''%'' \<or> c = CHR ''+'')"

definition flatten :: "(string \<times> string list) list \<Rightarrow> (string \<times> string) list" where
  "flatten d = concat (map (\<lambda>(k, vs). map (Pair k) vs) d)"

definition enc :: "string \<times> string \<Rightarrow> string" where
  "enc kv = quote_plus (fst kv) @ ''='' @ quote_plus (snd kv)"

definition wf_dict :: "(string \<times> string list) list \<Rightarrow> bool" where
  "wf_dict d = (distinct (map fst d) \<and> (\<forall>(k, vs) \<in> set d. vs \<noteq> [] \<and> (\<forall>v \<in> set vs. v \<noteq> [])))"


definition url_base :: "ParseResult \<Rightarrow> string" where
  "url_base p =
     (let url = (if params p \<noteq> [] then path p @ '';'' @ params p else path p);
          url1 = (if netloc p \<noteq> [] \<or> (scheme p \<noteq> [] \<and> scheme p \<in> set uses_netloc \<and> take 2 url \<noteq> ''//'')
                  then ''//'' @ netloc p @ (if url \<noteq> [] \<and> take 1 url \<noteq> ''/'' then ''/'' @ url else url)
                  else url)
      in if scheme p \<noteq> [] then scheme p @ '':'' @ url1 else url1)"

definition frag_part :: "ParseResult \<Rightarrow> string" where
  "frag_part p = (if fragment p \<noteq> [] then ''#'' @ fragment p else [])"


definition query_text :: "string \<Rightarrow> bool" where
  "query_text q = (q \<noteq> [] \<and> (\<forall>c \<in> set q. is_query_char c \<or> c = CHR ''='' \<or> c = CHR ''&''))"


definition item_value :: "env \<Rightarrow> string \<Rightarrow> nat" where
  "item_value env url =
     (case urlparse env url of
        Inl e \<Rightarrow> 0
      | Inr p \<Rightarrow>
          (case map_of (parse_qs (query p)) ''item'' of
             Some (v # vs) \<Rightarrow> (case py_int v of Some n \<Rightarrow> nat n | None \<Rightarrow> 0)
           | _ \<Rightarrow> 0))"




definition world0 :: world where
  "world0 = \<lparr>exists_path = (\<lambda>p. False), files = (\<lambda>p. None), trace = []\<rparr>"

definition scenario_env :: env where
  "scenario_env =
     \<lparr>requests_get = (\<lambda>u.
         if u = ''https://www.cityoftulsa.org/apps/CouncilDocuments?item=3'' then Response 200 ''page 3''
         else if u = ''https://www.cityoftulsa.org/apps/CouncilDocuments?item=2'' then Response 200 ''page 2''
         else if u = ''https://www.cityoftulsa.org/apps/CouncilDocuments?item=1'' then Response 200 ''page 1''
         else if u = ''https://www.cityoftulsa.org/apps/CouncilDocuments?item=9'' then Response 200 ''page 9''
         else if u = ''https://www.cityoftulsa.org/apps/CouncilDocuments?item=8'' then Response 200 ''page 8''
         else if u = ''https://www.cityoftulsa.org/apps/CouncilDocuments?item=6'' then Response 200 ''page 6''
         else if u = pdf_url_of ''25-1'' then Response 200 ''%PDF-1''
         else if u = pdf_url_of ''25-2'' then Response 200 ''%PDF-2''
         else if u = pdf_url_of ''25-3'' then RequestException
         else Response 404 []),
       html_markers = (\<lambda>b.
         if b = ''page 3'' then [FileName '' Regular Minutes.pdf '', PdfString ''25-1'']
         else if b = ''page 9'' then [FileName ''Regular Minutes.pdf'', PdfString ''25-1'',
                                      FileName ''Agenda.pdf'', PdfString ''25-2'']
         else if b = ''page 8'' then [FileName ''Regular Minutes.pdf'', PdfString ''25-3'',
                                      FileName ''Special Minutes.pdf'', PdfString ''25-2'']
         else if b = ''page 6'' then [FileName ''Regular Minutes.pdf'', PdfString ''25-1'',
                                      FileName ''Special Minutes.pdf'', PdfString ''25-3'']
         else []),
       makedirs_ok = (\<lambda>p. True), open_ok = (\<lambda>p. True),
       bracketed_netloc_ok = (\<lambda>h. True), nfkc_netloc_ok = (\<lambda>h. True)\<rparr>"

definition fs_ok :: "env \<Rightarrow> bool" where
  "fs_ok env = (\<forall>p. makedirs_ok env p \<and> open_ok env p)"





section \<open>Auxiliary lemmas\<close>

lemma requested_append: "requested (xs @ ys) = requested xs @ requested ys"
  by (induction xs rule: requested.induct) auto

lemma written_append: "written (xs @ ys) = written xs @ written ys"
  by (induction xs rule: written.induct) auto

lemma slept_append: "slept (xs @ ys) = slept xs @ slept ys"
  by (induction xs rule: slept.induct) auto

lemma pages_append: "pages (xs @ ys) = pages xs @ pages ys"
  by (induction xs rule: pages.induct) auto

lemma startswith_prefix: "startswith s p = prefix p s"
  by (induction s p rule: startswith.induct) auto

lemma py_in_sublist: "py_in sub s = sublist sub s"
  by (induction s) (auto simp: startswith_prefix sublist_Cons_right)

lemma should_download_matches: "should_download fw label = label_matches fw label"
  by (auto simp: should_download_def label_matches_def py_in_sublist lower_def split: option.splits)

lemma refs_of_Cons: "refs_of (fe # fes) = refs_of [fe] @ refs_of fes"
  by (simp add: refs_of_def)

lemma selected_append: "selected fw (xs @ ys) = selected fw xs @ selected fw ys"
  by (simp add: selected_def)

lemma saved_append: "saved env od (xs @ ys) = saved env od xs @ saved env od ys"
  by (simp add: saved_def)

lemma download_files_step:
  assumes "download_files env od fw (fe # fes) n w = Inr (c, w')"
  shows "\<exists>w1. download_files env od fw fes (n + length (saved env od (selected fw (refs_of [fe])))) w1 = Inr (c, w')
     \<and> written (trace w1) = written (trace w) @ saved env od (selected fw (refs_of [fe]))
     \<and> requested (trace w1) = requested (trace w) @ map (\<lambda>r. pdf_url_of (snd r)) (selected fw (refs_of [fe]))
     \<and> slept (trace w1) = slept (trace w)
     \<and> pages (trace w1) = pages (trace w)"
  using assms
  by (auto simp: Let_def should_download_matches refs_of_def selected_def saved_def emit_def
      written_append requested_append slept_append pages_append
      split: if_splits option.splits)

lemma download_files_Inr:
  "download_files env od fw fes n w = Inr (c, w') \<Longrightarrow>
     c = n + length (saved env od (selected fw (refs_of fes)))
     \<and> written (trace w') = written (trace w) @ saved env od (selected fw (refs_of fes))
     \<and> requested (trace w') = requested (trace w) @ map (\<lambda>r. pdf_url_of (snd r)) (selected fw (refs_of fes))
     \<and> slept (trace w') = slept (trace w)
     \<and> pages (trace w') = pages (trace w)"
proof (induction fes arbitrary: n w)
  case Nil
  then show ?case by (simp add: refs_of_def selected_def saved_def)
next
  case (Cons fe fes)
  from download_files_step [OF Cons.prems] obtain w1 where
    rec: "download_files env od fw fes (n + length (saved env od (selected fw (refs_of [fe])))) w1 = Inr (c, w')"
    and w1: "written (trace w1) = written (trace w) @ saved env od (selected fw (refs_of [fe]))"
      "requested (trace w1) = requested (trace w) @ map (\<lambda>r. pdf_url_of (snd r)) (selected fw (refs_of [fe]))"
      "slept (trace w1) = slept (trace w)" "pages (trace w1) = pages (trace w)"
    by blast
  from Cons.IH [OF rec] w1 show ?case
    by (simp add: refs_of_Cons [of fe fes] selected_append saved_append)
qed









lemma below_ceiling_mono: "below_ceiling mp (Suc k) \<Longrightarrow> below_ceiling mp k"
  by (auto simp: below_ceiling_def split: option.splits)




lemma ord_char_of: "n < 256 \<Longrightarrow> ord (char_of n) = n"
  by (simp add: ord_def)


lemma ord_less: "ord c < 256"
  by (simp add: ord_def)




lemma str_nat_nonempty: "str_nat n \<noteq> []"
  by (subst str_nat.simps) simp








lemma hex_digit_props:
  assumes "k < 16"
  shows "is_hexdig (hex_digit k)" and "hex_value (hex_digit k) = k"
    and "hex_digit k \<noteq> CHR ''%''" and "hex_digit k \<noteq> CHR ''+''" and "hex_digit k \<noteq> CHR '' ''"
    and "always_safe (hex_digit k)"
proof -
  have o: "ord (hex_digit k) = (if k < 10 then 48 + k else 55 + k)"
    using assms by (simp add: hex_digit_def ord_char_of)
  show "is_hexdig (hex_digit k)" using assms by (simp add: is_hexdig_def is_digit_def o)
  show "hex_value (hex_digit k) = k" using assms by (simp add: hex_value_def is_digit_def o)
  show "always_safe (hex_digit k)"
    using assms by (simp add: always_safe_def is_digit_def is_upper_def o)
  have "ord (CHR ''%'') = 37" "ord (CHR ''+'') = 43" "ord (CHR '' '') = 32"
    by (simp_all add: ord_def)
  with o show "hex_digit k \<noteq> CHR ''%''" "hex_digit k \<noteq> CHR ''+''" "hex_digit k \<noteq> CHR '' ''"
    by (auto split: if_splits)
qed




lemma quoter_chars:
  "x \<in> set (quoter safe c) \<Longrightarrow> always_safe x \<or> x = CHR ''%'' \<or> x \<in> set safe"
proof -
  have d: "ord c div 16 < 16" and m: "ord c mod 16 < 16"
    using ord_less [of c] by simp_all
  assume "x \<in> set (quoter safe c)"
  then show ?thesis
    using hex_digit_props(6) [OF d] hex_digit_props(6) [OF m]
    by (auto simp: quoter_def split: if_splits)
qed

lemma quote_chars:
  "x \<in> set (quote s safe) \<Longrightarrow> always_safe x \<or> x = CHR ''%'' \<or> x \<in> set safe"
  by (auto simp: quote_def dest: quoter_chars)

lemma quote_plus_chars: "x \<in> set (quote_plus s) \<Longrightarrow> is_query_char x"
  by (auto simp: quote_plus_def is_query_char_def dest!: quote_chars split: if_splits)




lemma unquote_nonempty: "s \<noteq> [] \<Longrightarrow> unquote s \<noteq> []"
  by (cases s rule: unquote.cases) auto

lemma unquote_plus_nonempty: "s \<noteq> [] \<Longrightarrow> unquote_plus s \<noteq> []"
  by (simp add: unquote_plus_def unquote_nonempty)

lemma urlencode_flatten: "urlencode d = join ''&'' (map enc (flatten d))"
proof -
  have "concat (map (\<lambda>(k, vs). map (\<lambda>elt. quote_plus k @ ''='' @ quote_plus elt) vs) d)
      = map enc (flatten d)"
    by (induction d) (auto simp: flatten_def enc_def)
  then show ?thesis by (simp add: urlencode_def)
qed




lemma join_nonempty: "ps \<noteq> [] \<Longrightarrow> \<forall>p \<in> set ps. p \<noteq> [] \<Longrightarrow> join sep ps \<noteq> []"
  by (induction sep ps rule: join.induct) auto






lemma enc_nonempty: "enc kv \<noteq> []"
  by (simp add: enc_def)











lemma wf_dict_update: "wf_dict d \<Longrightarrow> vs \<noteq> [] \<Longrightarrow> \<forall>v \<in> set vs. v \<noteq> [] \<Longrightarrow> wf_dict (AList.update k vs d)"
proof -
  assume wf: "wf_dict d" and vs: "vs \<noteq> []" "\<forall>v \<in> set vs. v \<noteq> []"
  have "set (AList.update k vs d) \<subseteq> insert (k, vs) (set d)"
    by (induction d) auto
  then show ?thesis
    using wf vs by (fastforce simp: wf_dict_def AList.distinct_update)
qed

lemma wf_dict_add: "wf_dict d \<Longrightarrow> snd nv \<noteq> [] \<Longrightarrow> wf_dict (parse_qs_add nv d)"
proof -
  assume wf: "wf_dict d" and nv: "snd nv \<noteq> []"
  show ?thesis
  proof (cases "map_of d (fst nv)")
    case None
    then show ?thesis using wf nv by (simp add: parse_qs_add_def wf_dict_update)
  next
    case (Some vs)
    then have "(fst nv, vs) \<in> set d" by (rule map_of_SomeD)
    with wf have "\<forall>v \<in> set vs. v \<noteq> []" by (auto simp: wf_dict_def)
    then show ?thesis using wf nv Some by (simp add: parse_qs_add_def wf_dict_update)
  qed
qed

lemma parse_field_nonblank: "kv \<in> set (parse_field f) \<Longrightarrow> snd kv \<noteq> []"
  by (auto simp: parse_field_def Let_def unquote_plus_nonempty split: if_splits)

lemma parse_qsl_nonblank: "kv \<in> set (parse_qsl q) \<Longrightarrow> snd kv \<noteq> []"
  by (auto simp: parse_qsl_def dest: parse_field_nonblank split: if_splits)

lemma wf_dict_fold:
  "wf_dict acc \<Longrightarrow> \<forall>kv \<in> set ps. snd kv \<noteq> [] \<Longrightarrow> wf_dict (fold parse_qs_add ps acc)"
  by (induction ps arbitrary: acc) (auto simp: wf_dict_add)

lemma wf_dict_parse_qs: "wf_dict (parse_qs q)"
  unfolding parse_qs_def
  by (rule wf_dict_fold) (auto simp: wf_dict_def dest: parse_qsl_nonblank)

lemma urlunparse_decomp:
  "urlunparse p = url_base p @ (if query p \<noteq> [] then ''?'' @ query p else []) @ frag_part p"
  by (simp add: urlunparse_def urlunsplit_def url_base_def frag_part_def Let_def)

lemma url_base_query [simp]: "url_base (p\<lparr>query := q\<rparr>) = url_base p"
  by (simp add: url_base_def cong: if_cong)

lemma frag_part_query [simp]: "frag_part (p\<lparr>query := q\<rparr>) = frag_part p"
  by (simp add: frag_part_def)

























lemma flatten_nonempty: "wf_dict d \<Longrightarrow> d \<noteq> [] \<Longrightarrow> flatten d \<noteq> []"
  by (cases d) (auto simp: wf_dict_def flatten_def)

lemma join_chars:
  "x \<in> set (join sep ps) \<Longrightarrow> x \<in> set sep \<or> (\<exists>p \<in> set ps. x \<in> set p)"
  by (induction sep ps rule: join.induct) auto

lemma enc_chars: "x \<in> set (enc kv) \<Longrightarrow> is_query_char x \<or> x = CHR ''=''"
  by (auto simp: enc_def dest: quote_plus_chars)

lemma urlencode_query_text: "wf_dict d \<Longrightarrow> d \<noteq> [] \<Longrightarrow> query_text (urlencode d)"
proof -
  assume wf: "wf_dict d" and ne: "d \<noteq> []"
  have "join ''&'' (map enc (flatten d)) \<noteq> []"
    using flatten_nonempty [OF wf ne] by (intro join_nonempty) (auto simp: enc_nonempty)
  moreover have "\<forall>c \<in> set (join ''&'' (map enc (flatten d))). is_query_char c \<or> c = CHR ''='' \<or> c = CHR ''&''"
    by (auto dest!: join_chars enc_chars)
  ultimately show ?thesis by (simp add: query_text_def urlencode_flatten)
qed



lemma update_nonempty: "AList.update k v d \<noteq> []"
  by (cases d) auto

lemma decrement_Some:
  assumes "decrement_item_in_url env url = Inr (Some url', logged)"
  shows "\<exists>p v vs n. urlparse env url = Inr p
      \<and> map_of (parse_qs (query p)) ''item'' = Some (v # vs)
      \<and> py_int v = Some n \<and> 1 < n \<and> logged = []
      \<and> url' = urlunparse (p\<lparr>query := urlencode (AList.update ''item'' [py_str (n - 1)] (parse_qs (query p)))\<rparr>)"
  using assms
  by (auto simp: decrement_item_in_url_def Let_def
      split: sum.splits option.splits list.splits if_splits)

lemma str_nat_all_nonempty: "\<forall>v \<in> set [py_str i]. v \<noteq> []"
  by (simp add: py_str_def str_nat_nonempty)





lemma download_files_total:
  "fs_ok env \<Longrightarrow> \<exists>c w'. download_files env od fw fes n w = Inr (c, w')"
proof (induction fes arbitrary: n w)
  case Nil
  then show ?case by simp
next
  case (Cons fe fes)
  then show ?case
    by (simp add: Let_def fs_ok_def split: option.splits)
qed

lemma extract_pdfs_total:
  "fs_ok env \<Longrightarrow> \<exists>c w'. extract_pdfs env url od fw w = Inr (c, w')"
  using download_files_total [of env od fw]
  by (auto simp: extract_pdfs_def Let_def fs_ok_def split: option.splits)

lemma fs_ok_scenario_env: "fs_ok scenario_env"
  by (simp add: fs_ok_def scenario_env_def)

lemma label_matches_None: "label_matches None label"
  by (simp add: label_matches_def)

lemma selected_None: "selected None refs = refs"
  by (simp add: selected_def label_matches_def)





lemma decrement_truthy:
  "decrement_item_in_url env url = Inr (Some url', logged) \<Longrightarrow> truthy (Some url')"
proof -
  assume a: "decrement_item_in_url env url = Inr (Some url', logged)"
  from decrement_Some [OF a] obtain p n where
    u: "url' = urlunparse (p\<lparr>query := urlencode (AList.update ''item'' [py_str (n - 1)] (parse_qs (query p)))\<rparr>)"
    by blast
  let ?d = "AList.update ''item'' [py_str (n - 1)] (parse_qs (query p))"
  have wf: "wf_dict ?d"
    using wf_dict_parse_qs str_nat_all_nonempty by (intro wf_dict_update) auto
  have "query_text (urlencode ?d)" using wf update_nonempty by (rule urlencode_query_text)
  then have "urlencode ?d \<noteq> []" by (simp add: query_text_def)
  then show ?thesis by (simp add: u urlunparse_decomp truthy_def)
qed








section \<open>The claims\<close>

subsection \<open>Sanitizing file names\<close>

text \<open>
  Claim C6. For every label, \<open>clean_filename\<close> replaces each character of the set
  backslash, slash, star, question mark, colon, double quote, less, greater, bar by an
  underscore and leaves every other character as it is; so the result has the length of
  the label and holds none of these characters.
\<close>

theorem clean_filename_replaces:
  "length (clean_filename label) = length label
   \<and> set (clean_filename label) \<inter> bad_filename_chars = {}
   \<and> (\<forall>i < length label.
         clean_filename label ! i = (if label ! i \<in> bad_filename_chars then CHR ''_'' else label ! i))"
  by (auto simp: clean_filename_def bad_filename_chars_def)

theorem clean_filename_replaces_witness:
  "clean_filename ''a/b:c?.pdf'' = ''a_b_c_.pdf''
   \<and> length (clean_filename ''a/b:c?.pdf'') = length ''a/b:c?.pdf''
   \<and> set (clean_filename ''a/b:c?.pdf'') \<inter> bad_filename_chars = {}
   \<and> clean_filename ''a/b:c?.pdf'' ! 1 = CHR ''_''"
  using clean_filename_replaces [of "''a/b:c?.pdf''"]
  by (simp add: clean_filename_def bad_filename_chars_def)

subsection \<open>When the decrement gives no address\<close>



subsection \<open>Filtering\<close>

text \<open>
  Claim C7. For a page that was fetched, the file references are the \<open>fileName\<close>
  elements that have a \<open>pdfString\<close> element after them, with the stripped texts as
  label and identifier. The retrieval addresses the extractor requests are exactly
  those of the references whose label matches the filter word, in page order, and the
  files it writes are those among them whose fetch succeeds; the count it returns is
  their number. A label matches a filter word when the word, in lower case, is a
  contiguous part of the label in lower case; without a filter word every label
  matches, so every reference is requested.
\<close>

theorem extract_pdfs_filter:
  assumes "fetch env url = Some body" and "extract_pdfs env url od fw w = Inr (c, w')"
  shows "requested (trace w') = requested (trace w) @ url #
           map (\<lambda>r. pdf_url_of (snd r)) (filter (\<lambda>r. label_matches fw (fst r)) (references (html_markers env body)))
       \<and> written (trace w') = written (trace w) @
           saved env od (filter (\<lambda>r. label_matches fw (fst r)) (references (html_markers env body)))
       \<and> c = length (saved env od (filter (\<lambda>r. label_matches fw (fst r)) (references (html_markers env body))))
       \<and> (\<forall>word label. label_matches (Some word) label = sublist (lower word) (lower label))
       \<and> (\<forall>label. label_matches None label)"
proof (cases "find_all_fileName (html_markers env body) = []")
  case True
  with assms show ?thesis
    by (auto simp: extract_pdfs_def Let_def emit_def requested_append written_append
        references_def refs_of_def saved_def label_matches_def split: if_splits)
next
  case False
  with assms obtain w1 where
    d: "download_files env od fw (find_all_fileName (html_markers env body)) 0 w1 = Inr (c, w')"
    and w1: "requested (trace w1) = requested (trace w) @ [url]" "written (trace w1) = written (trace w)"
    by (auto simp: extract_pdfs_def Let_def emit_def requested_append written_append split: if_splits)
  from download_files_Inr [OF d] w1 show ?thesis
    by (simp add: references_def selected_def label_matches_def)
qed

theorem extract_pdfs_filter_witness:
  "(\<exists>c w'. extract_pdfs scenario_env ''https://www.cityoftulsa.org/apps/CouncilDocuments?item=9'' ''out''
        (Some ''minutes'') world0 = Inr (c, w')
      \<and> c = 1
      \<and> written (trace w') = [(''out/Regular Minutes.pdf'', ''%PDF-1'')]
      \<and> requested (trace w') = [''https://www.cityoftulsa.org/apps/CouncilDocuments?item=9'', pdf_url_of ''25-1''])
   \<and> (\<exists>c w'. extract_pdfs scenario_env ''https://www.cityoftulsa.org/apps/CouncilDocuments?item=9'' ''out''
        None world0 = Inr (c, w')
      \<and> c = 2
      \<and> written (trace w') = [(''out/Regular Minutes.pdf'', ''%PDF-1''), (''out/Agenda.pdf'', ''%PDF-2'')])"
proof -
  let ?u = "''https://www.cityoftulsa.org/apps/CouncilDocuments?item=9''"
  have f: "fetch scenario_env ?u = Some ''page 9''" by code_simp
  have m: "html_markers scenario_env ''page 9'' = [FileName ''Regular Minutes.pdf'', PdfString ''25-1'',
                                      FileName ''Agenda.pdf'', PdfString ''25-2'']"
    by code_simp
  have r: "references [FileName ''Regular Minutes.pdf'', PdfString ''25-1'',
                                      FileName ''Agenda.pdf'', PdfString ''25-2'']
      = [(''Regular Minutes.pdf'', ''25-1''), (''Agenda.pdf'', ''25-2'')]"
    by code_simp
  have l: "label_matches (Some ''minutes'') ''Regular Minutes.pdf''"
    "\<not> label_matches (Some ''minutes'') ''Agenda.pdf''"
    by code_simp+
  have s1: "saved scenario_env ''out'' [(''Regular Minutes.pdf'', ''25-1'')] = [(''out/Regular Minutes.pdf'', ''%PDF-1'')]"
    by code_simp
  have s2: "saved scenario_env ''out'' [(''Regular Minutes.pdf'', ''25-1''), (''Agenda.pdf'', ''25-2'')]
     = [(''out/Regular Minutes.pdf'', ''%PDF-1''), (''out/Agenda.pdf'', ''%PDF-2'')]"
    by code_simp
  have w: "written (trace world0) = []" "requested (trace world0) = []" by (simp_all add: world0_def)
  have e1: "\<exists>c w'. extract_pdfs scenario_env ?u ''out'' (Some ''minutes'') world0 = Inr (c, w')"
    by (rule extract_pdfs_total [OF fs_ok_scenario_env])
  then obtain c1 w1 where x1: "extract_pdfs scenario_env ?u ''out'' (Some ''minutes'') world0 = Inr (c1, w1)"
    by blast
  have e2: "\<exists>c w'. extract_pdfs scenario_env ?u ''out'' None world0 = Inr (c, w')"
    by (rule extract_pdfs_total [OF fs_ok_scenario_env])
  then obtain c2 w2 where x2: "extract_pdfs scenario_env ?u ''out'' None world0 = Inr (c2, w2)"
    by blast
  from extract_pdfs_filter [OF f x1] have
    "c1 = 1 \<and> written (trace w1) = [(''out/Regular Minutes.pdf'', ''%PDF-1'')]
      \<and> requested (trace w1) = [?u, pdf_url_of ''25-1'']"
    by (simp add: m r l s1 w)
  moreover from extract_pdfs_filter [OF f x2] have
    "c2 = 2 \<and> written (trace w2) = [(''out/Regular Minutes.pdf'', ''%PDF-1''), (''out/Agenda.pdf'', ''%PDF-2'')]"
    by (simp add: m r label_matches_None s2 w)
  ultimately show ?thesis using x1 x2 by blast
qed

subsection \<open>The page ceiling\<close>



subsection \<open>Fetch failures\<close>



subsection \<open>What the driver gives back\<close>




subsection \<open>Pauses\<close>




subsection \<open>Scenario A\<close>




end
